theory Spec2Isabelle
  imports Main "HOL-Library.Word" "HOL-Library.Signed_Division" "HOL-Library.Monad_Syntax"
begin

unbundle bit_operations_syntax

section \<open>C integers of the target\<close>

text \<open>
  \<open>u32_t\<close> and \<open>int\<close> are both 32 bits wide on the Cortex-M4. A value of either type is
  a \<open>32 word\<close>; an \<open>int\<close> is read through \<open>sint\<close> and compared with \<open>\<le>s\<close>.
  An operation whose behaviour C leaves undefined (a shift count outside 0..31, an
  overflowing signed multiplication, an index outside an array) yields \<open>None\<close>.
  A left shift of an \<open>int\<close> keeps the low 32 bits of the shifted pattern, which is what
  GCC documents for signed \<open><<\<close>.
\<close>

type_synonym u32 = "32 word"
type_synonym c_int = "32 word"

definition c_mul :: "c_int \<Rightarrow> c_int \<Rightarrow> c_int option" where
  "c_mul a b =
     (if - (2 ^ 31) \<le> sint a * sint b \<and> sint a * sint b < 2 ^ 31 then Some (a * b) else None)"

definition c_rem :: "c_int \<Rightarrow> c_int \<Rightarrow> c_int option" where
  "c_rem a b =
     (if b = 0 \<or> (sint a = - (2 ^ 31) \<and> sint b = - 1) then None
      else Some (word_of_int (sint a smod sint b)))"

definition c_shl :: "32 word \<Rightarrow> c_int \<Rightarrow> 32 word option" where
  "c_shl x n = (if 0 \<le>s n \<and> n <s 32 then Some (push_bit (unat n) x) else None)"

definition c_shr :: "u32 \<Rightarrow> c_int \<Rightarrow> u32 option" where
  "c_shr x n = (if 0 \<le>s n \<and> n <s 32 then Some (drop_bit (unat n) x) else None)"

text \<open>
  Modelled from the spec: \<open>errno.h\<close> is not among the sources; the invalid-argument
  condition is the code \<open>EINVAL\<close>, with its usual value. No theorem depends on the number.
\<close>

definition EINVAL :: c_int where
  "EINVAL = 22"

section \<open>Pin functions\<close>

text \<open>
  The enumerators the four classifiers switch on. The header that numbers them is not
  among the sources, so every function below takes the numbering as its first
  argument; since they are case labels of one \<open>switch\<close>, a numbering is injective.
\<close>

datatype stm32f4x_pin_config =
    STM32F4X_PIN_CONFIG_BIAS_HIGH_IMPEDANCE
  | STM32F4X_PIN_CONFIG_BIAS_PULL_UP
  | STM32F4X_PIN_CONFIG_BIAS_PULL_DOWN
  | STM32F4X_PIN_CONFIG_ANALOG
  | STM32F4X_PIN_CONFIG_DRIVE_OPEN_DRAIN
  | STM32F4X_PIN_CONFIG_DRIVE_OPEN_UP
  | STM32F4X_PIN_CONFIG_DRIVE_OPEN_DOWN
  | STM32F4X_PIN_CONFIG_DRIVE_PUSH_PULL
  | STM32F4X_PIN_CONFIG_DRIVE_PUSH_UP
  | STM32F4X_PIN_CONFIG_DRIVE_PUSH_DOWN
  | STM32F4X_PIN_CONFIG_AF_PUSH_PULL
  | STM32F4X_PIN_CONFIG_AF_PUSH_UP
  | STM32F4X_PIN_CONFIG_AF_PUSH_DOWN
  | STM32F4X_PIN_CONFIG_AF_OPEN_DRAIN
  | STM32F4X_PIN_CONFIG_AF_OPEN_UP
  | STM32F4X_PIN_CONFIG_AF_OPEN_DOWN

type_synonym numbering = "stm32f4x_pin_config \<Rightarrow> c_int"

definition func_to_mode :: "numbering \<Rightarrow> c_int \<Rightarrow> u32" where
  "func_to_mode enc func =
     (if func = enc STM32F4X_PIN_CONFIG_BIAS_HIGH_IMPEDANCE
        \<or> func = enc STM32F4X_PIN_CONFIG_BIAS_PULL_UP
        \<or> func = enc STM32F4X_PIN_CONFIG_BIAS_PULL_DOWN then 0x0
      else if func = enc STM32F4X_PIN_CONFIG_DRIVE_PUSH_PULL
        \<or> func = enc STM32F4X_PIN_CONFIG_DRIVE_PUSH_UP
        \<or> func = enc STM32F4X_PIN_CONFIG_DRIVE_PUSH_DOWN
        \<or> func = enc STM32F4X_PIN_CONFIG_DRIVE_OPEN_DRAIN
        \<or> func = enc STM32F4X_PIN_CONFIG_DRIVE_OPEN_UP
        \<or> func = enc STM32F4X_PIN_CONFIG_DRIVE_OPEN_DOWN then 0x1
      else if func = enc STM32F4X_PIN_CONFIG_AF_PUSH_PULL
        \<or> func = enc STM32F4X_PIN_CONFIG_AF_PUSH_UP
        \<or> func = enc STM32F4X_PIN_CONFIG_AF_PUSH_DOWN
        \<or> func = enc STM32F4X_PIN_CONFIG_AF_OPEN_DRAIN
        \<or> func = enc STM32F4X_PIN_CONFIG_AF_OPEN_UP
        \<or> func = enc STM32F4X_PIN_CONFIG_AF_OPEN_DOWN then 0x2
      else if func = enc STM32F4X_PIN_CONFIG_ANALOG then 0x3
      else 0)"

definition func_to_otype :: "numbering \<Rightarrow> c_int \<Rightarrow> u32" where
  "func_to_otype enc func =
     (if func = enc STM32F4X_PIN_CONFIG_DRIVE_OPEN_DRAIN
        \<or> func = enc STM32F4X_PIN_CONFIG_DRIVE_OPEN_UP
        \<or> func = enc STM32F4X_PIN_CONFIG_DRIVE_OPEN_DOWN
        \<or> func = enc STM32F4X_PIN_CONFIG_AF_OPEN_DRAIN
        \<or> func = enc STM32F4X_PIN_CONFIG_AF_OPEN_UP
        \<or> func = enc STM32F4X_PIN_CONFIG_AF_OPEN_DOWN then 0x1
      else 0)"

definition func_to_ospeed :: "numbering \<Rightarrow> c_int \<Rightarrow> u32" where
  "func_to_ospeed enc func =
     (if func = enc STM32F4X_PIN_CONFIG_DRIVE_PUSH_PULL
        \<or> func = enc STM32F4X_PIN_CONFIG_DRIVE_PUSH_UP
        \<or> func = enc STM32F4X_PIN_CONFIG_DRIVE_PUSH_DOWN
        \<or> func = enc STM32F4X_PIN_CONFIG_DRIVE_OPEN_DRAIN
        \<or> func = enc STM32F4X_PIN_CONFIG_DRIVE_OPEN_UP
        \<or> func = enc STM32F4X_PIN_CONFIG_DRIVE_OPEN_DOWN
        \<or> func = enc STM32F4X_PIN_CONFIG_AF_PUSH_PULL
        \<or> func = enc STM32F4X_PIN_CONFIG_AF_PUSH_UP
        \<or> func = enc STM32F4X_PIN_CONFIG_AF_PUSH_DOWN
        \<or> func = enc STM32F4X_PIN_CONFIG_AF_OPEN_DRAIN
        \<or> func = enc STM32F4X_PIN_CONFIG_AF_OPEN_UP
        \<or> func = enc STM32F4X_PIN_CONFIG_AF_OPEN_DOWN then 0x2
      else 0)"

definition func_to_pupd :: "numbering \<Rightarrow> c_int \<Rightarrow> u32" where
  "func_to_pupd enc func =
     (if func = enc STM32F4X_PIN_CONFIG_DRIVE_PUSH_PULL
        \<or> func = enc STM32F4X_PIN_CONFIG_DRIVE_OPEN_DRAIN
        \<or> func = enc STM32F4X_PIN_CONFIG_AF_PUSH_PULL
        \<or> func = enc STM32F4X_PIN_CONFIG_AF_OPEN_DRAIN
        \<or> func = enc STM32F4X_PIN_CONFIG_BIAS_HIGH_IMPEDANCE
        \<or> func = enc STM32F4X_PIN_CONFIG_ANALOG then 0x0
      else if func = enc STM32F4X_PIN_CONFIG_DRIVE_PUSH_UP
        \<or> func = enc STM32F4X_PIN_CONFIG_DRIVE_OPEN_UP
        \<or> func = enc STM32F4X_PIN_CONFIG_AF_PUSH_UP
        \<or> func = enc STM32F4X_PIN_CONFIG_AF_OPEN_UP
        \<or> func = enc STM32F4X_PIN_CONFIG_BIAS_PULL_UP then 0x1
      else if func = enc STM32F4X_PIN_CONFIG_DRIVE_PUSH_DOWN
        \<or> func = enc STM32F4X_PIN_CONFIG_DRIVE_OPEN_DOWN
        \<or> func = enc STM32F4X_PIN_CONFIG_AF_PUSH_DOWN
        \<or> func = enc STM32F4X_PIN_CONFIG_AF_OPEN_DOWN
        \<or> func = enc STM32F4X_PIN_CONFIG_BIAS_PULL_DOWN then 0x2
      else 0)"

text \<open>
  Modelled from the spec: the enumeration header is missing, so this numbering (the
  enumerators counted from 0 in the order of the datatype) only serves to run the model
  on concrete inputs. The general theorems hold for every injective numbering.
\<close>

fun sample_numbering :: numbering where
  "sample_numbering STM32F4X_PIN_CONFIG_BIAS_HIGH_IMPEDANCE = 0"
| "sample_numbering STM32F4X_PIN_CONFIG_BIAS_PULL_UP = 1"
| "sample_numbering STM32F4X_PIN_CONFIG_BIAS_PULL_DOWN = 2"
| "sample_numbering STM32F4X_PIN_CONFIG_ANALOG = 3"
| "sample_numbering STM32F4X_PIN_CONFIG_DRIVE_OPEN_DRAIN = 4"
| "sample_numbering STM32F4X_PIN_CONFIG_DRIVE_OPEN_UP = 5"
| "sample_numbering STM32F4X_PIN_CONFIG_DRIVE_OPEN_DOWN = 6"
| "sample_numbering STM32F4X_PIN_CONFIG_DRIVE_PUSH_PULL = 7"
| "sample_numbering STM32F4X_PIN_CONFIG_DRIVE_PUSH_UP = 8"
| "sample_numbering STM32F4X_PIN_CONFIG_DRIVE_PUSH_DOWN = 9"
| "sample_numbering STM32F4X_PIN_CONFIG_AF_PUSH_PULL = 10"
| "sample_numbering STM32F4X_PIN_CONFIG_AF_PUSH_UP = 11"
| "sample_numbering STM32F4X_PIN_CONFIG_AF_PUSH_DOWN = 12"
| "sample_numbering STM32F4X_PIN_CONFIG_AF_OPEN_DRAIN = 13"
| "sample_numbering STM32F4X_PIN_CONFIG_AF_OPEN_UP = 14"
| "sample_numbering STM32F4X_PIN_CONFIG_AF_OPEN_DOWN = 15"

section \<open>Flags translator\<close>

text \<open>
  The flag constants of \<open>gpio.h\<close>, which is not among the sources, are taken as a
  parameter.
\<close>

record gpio_h =
  GPIO_DIR_MASK :: c_int
  GPIO_DIR_OUT :: c_int
  GPIO_PUD_MASK :: c_int
  GPIO_PUD_PULL_UP :: c_int
  GPIO_PUD_PULL_DOWN :: c_int

text \<open>
  Modelled from the spec: a direction mask with one output flag and a pull mask with a
  pull-up and a pull-down flag, at the bit positions Zephyr's \<open>gpio.h\<close> uses; only for
  running the model on concrete inputs.
\<close>

definition sample_gpio_h :: gpio_h where
  "sample_gpio_h =
     \<lparr>GPIO_DIR_MASK = 0x1, GPIO_DIR_OUT = 0x1, GPIO_PUD_MASK = 0x300,
      GPIO_PUD_PULL_UP = 0x100, GPIO_PUD_PULL_DOWN = 0x200\<rparr>"

text \<open>
  \<open>int *pincfg\<close> is an address into a store of \<open>int\<close> cells; \<open>NULL\<close> is address 0.
\<close>

type_synonym addr = nat
type_synonym int_store = "addr \<Rightarrow> c_int"

definition NULL :: addr where
  "NULL = 0"

definition stm32_gpio_flags_to_conf ::
  "gpio_h \<Rightarrow> numbering \<Rightarrow> int_store \<Rightarrow> c_int \<Rightarrow> addr \<Rightarrow> c_int \<times> int_store" where
  "stm32_gpio_flags_to_conf K enc mem flags pincfg =
     (let direction = flags AND GPIO_DIR_MASK K;
          pud = flags AND GPIO_PUD_MASK K
      in if pincfg = NULL then (- EINVAL, mem)
         else if direction = GPIO_DIR_OUT K then
           (if pud = GPIO_PUD_PULL_UP K then
              (0, mem(pincfg := enc STM32F4X_PIN_CONFIG_DRIVE_PUSH_UP))
            else if pud = GPIO_PUD_PULL_DOWN K then
              (0, mem(pincfg := enc STM32F4X_PIN_CONFIG_DRIVE_PUSH_DOWN))
            else (0, mem(pincfg := enc STM32F4X_PIN_CONFIG_DRIVE_PUSH_PULL)))
         else
           (if pud = GPIO_PUD_PULL_UP K then
              (0, mem(pincfg := enc STM32F4X_PIN_CONFIG_BIAS_PULL_UP))
            else if pud = GPIO_PUD_PULL_DOWN K then
              (0, mem(pincfg := enc STM32F4X_PIN_CONFIG_BIAS_PULL_DOWN))
            else (0, mem(pincfg := enc STM32F4X_PIN_CONFIG_BIAS_HIGH_IMPEDANCE))))"

section \<open>Memory-mapped registers\<close>

text \<open>
  The registers the code touches: the fields of the GPIO block at the base address
  (\<open>afr\<close> is an array of two words) and the four selector registers of SYSCFG. The
  hardware state is a store from register to value, together with the accesses made so
  far, in program order, and the calls to the clock-control driver.
\<close>

datatype reg = MODE | OTYPE | OSPEED | PUPDR | IDR | BSR | AFR nat
  | EXTICR1 | EXTICR2 | EXTICR3 | EXTICR4

datatype clock_bus = STM32_CLOCK_BUS_APB2
datatype clock_enr = LL_APB2_GRP1_PERIPH_SYSCFG

datatype access = Rd reg | Wr reg u32 | Clock_control_on clock_bus clock_enr

record hw =
  regs :: "reg \<Rightarrow> u32"
  trace :: "access list"

definition rd :: "reg \<Rightarrow> hw \<Rightarrow> u32 \<times> hw" where
  "rd r s = (regs s r, s\<lparr>trace := trace s @ [Rd r]\<rparr>)"

definition wr :: "reg \<Rightarrow> u32 \<Rightarrow> hw \<Rightarrow> hw" where
  "wr r v s = s\<lparr>regs := (regs s)(r := v), trace := trace s @ [Wr r v]\<rparr>"

definition afr_index :: "c_int \<Rightarrow> nat option" where
  "afr_index i = (if 0 \<le>s i \<and> i <s 2 then Some (unat i) else None)"

text \<open>
  Modelled from the spec: the clock-control driver is an external collaborator; a call
  to it is recorded in the trace and changes no register of this model. The lookup
  \<open>device_get_binding\<close> that precedes it only finds the driver.
\<close>

definition clock_control_on :: "clock_bus \<Rightarrow> clock_enr \<Rightarrow> hw \<Rightarrow> hw" where
  "clock_control_on b e s = s\<lparr>trace := trace s @ [Clock_control_on b e]\<rparr>"

section \<open>Register programmer\<close>

definition stm32_gpio_configure ::
  "numbering \<Rightarrow> hw \<Rightarrow> c_int \<Rightarrow> c_int \<Rightarrow> c_int \<Rightarrow> (c_int \<times> hw) option" where
  "stm32_gpio_configure enc s pin conf altf =
     (let mode = func_to_mode enc conf;
          otype = func_to_otype enc conf;
          ospeed = func_to_ospeed enc conf;
          pupd = func_to_pupd enc conf
      in do {
        s \<leftarrow> (if altf \<noteq> 0 then do {
                i \<leftarrow> afr_index (signed_drop_bit 3 pin);
                let (tmpreg, s) = rd (AFR i) s;
                sh \<leftarrow> c_mul (pin AND 0x07) 4;
                m \<leftarrow> c_shl 0xf sh;
                let tmpreg = tmpreg AND NOT m;
                a \<leftarrow> c_shl altf sh;
                let tmpreg = tmpreg OR a;
                Some (wr (AFR i) tmpreg s)
              } else Some s);
        let (tmpreg, s) = rd MODE s;
        sh \<leftarrow> c_mul pin 2;
        m \<leftarrow> c_shl 0x3 sh;
        let tmpreg = tmpreg AND NOT m;
        a \<leftarrow> c_shl mode sh;
        let tmpreg = tmpreg OR a;
        let s = wr MODE tmpreg s;
        s \<leftarrow> (if otype \<noteq> 0 then do {
                let (tmpreg, s) = rd OTYPE s;
                m \<leftarrow> c_shl 0x1 pin;
                let tmpreg = tmpreg AND NOT m;
                a \<leftarrow> c_shl otype pin;
                let tmpreg = tmpreg OR a;
                Some (wr OTYPE tmpreg s)
              } else Some s);
        s \<leftarrow> (if ospeed \<noteq> 0 then do {
                let (tmpreg, s) = rd OSPEED s;
                sh \<leftarrow> c_mul pin 2;
                m \<leftarrow> c_shl 0x3 sh;
                let tmpreg = tmpreg AND NOT m;
                a \<leftarrow> c_shl ospeed sh;
                let tmpreg = tmpreg OR a;
                Some (wr OSPEED tmpreg s)
              } else Some s);
        let (tmpreg, s) = rd PUPDR s;
        sh \<leftarrow> c_mul pin 2;
        m \<leftarrow> c_shl 0x3 sh;
        let tmpreg = tmpreg AND NOT m;
        a \<leftarrow> c_shl pupd sh;
        let tmpreg = tmpreg OR a;
        let s = wr PUPDR tmpreg s;
        Some (0, s)
      })"

section \<open>Pin I/O\<close>

definition stm32_gpio_set :: "hw \<Rightarrow> c_int \<Rightarrow> c_int \<Rightarrow> (c_int \<times> hw) option" where
  "stm32_gpio_set s pin val =
     (if val \<noteq> 0 then do {
        v \<leftarrow> c_shl 1 (pin AND 0x0f);
        Some (0, wr BSR v s)
      } else do {
        v \<leftarrow> c_shl 1 ((pin AND 0x0f) + 0x10);
        Some (0, wr BSR v s)
      })"

definition stm32_gpio_get :: "hw \<Rightarrow> c_int \<Rightarrow> (c_int \<times> hw) option" where
  "stm32_gpio_get s pin =
     (let (idr, s) = rd IDR s
      in do {
        v \<leftarrow> c_shr idr pin;
        Some (v AND 0x1, s)
      })"

section \<open>Interrupt router\<close>

definition stm32_gpio_enable_int :: "hw \<Rightarrow> c_int \<Rightarrow> c_int \<Rightarrow> (c_int \<times> hw) option" where
  "stm32_gpio_enable_int s port pin =
     (let s = clock_control_on STM32_CLOCK_BUS_APB2 LL_APB2_GRP1_PERIPH_SYSCFG s
      in case (if pin \<le>s 3 then Some EXTICR1
               else if pin \<le>s 7 then Some EXTICR2
               else if pin \<le>s 11 then Some EXTICR3
               else if pin \<le>s 15 then Some EXTICR4
               else None) of
           None \<Rightarrow> Some (- EINVAL, s)
         | Some exticr \<Rightarrow> do {
             r \<leftarrow> c_rem pin 4;
             shift \<leftarrow> c_mul 4 r;
             m \<leftarrow> c_shl 0xf shift;
             let (v, s) = rd exticr s;
             let s = wr exticr (v AND NOT m) s;
             p \<leftarrow> c_shl port shift;
             let (v, s) = rd exticr s;
             let s = wr exticr (v OR p) s;
             Some (0, s)
           })"

section \<open>The register programmer as the specification words it\<close>

text \<open>
  A read-modify-write of a field of \<open>width\<close> bits at bit \<open>off\<close>: clear the field, OR in
  the new value, write back.
\<close>

definition field_rmw :: "nat \<Rightarrow> nat \<Rightarrow> u32 \<Rightarrow> u32 \<Rightarrow> u32" where
  "field_rmw width off v old = (old AND NOT (push_bit off (mask width))) OR push_bit off v"

definition rmw_step :: "reg \<Rightarrow> nat \<Rightarrow> nat \<Rightarrow> u32 \<Rightarrow> hw \<Rightarrow> hw" where
  "rmw_step r width off v s =
     (let new = field_rmw width off v (regs s r)
      in s\<lparr>regs := (regs s)(r := new), trace := trace s @ [Rd r, Wr r new]\<rparr>)"

text \<open>
  The five steps of the specification, in its order, for pin number \<open>p\<close>: the
  alternate-function nibble when a code is supplied, the mode field, the output-type
  bit and the speed field when their values are non-zero, the pull field always.
\<close>

definition configure_steps :: "numbering \<Rightarrow> nat \<Rightarrow> c_int \<Rightarrow> c_int \<Rightarrow> hw \<Rightarrow> hw" where
  "configure_steps enc p f altf s =
     (let s1 = (if altf \<noteq> 0 then rmw_step (AFR (p div 8)) 4 ((p mod 8) * 4) altf s else s);
          s2 = rmw_step MODE 2 (p * 2) (func_to_mode enc f) s1;
          s3 = (if func_to_otype enc f \<noteq> 0
                then rmw_step OTYPE 1 p (func_to_otype enc f) s2 else s2);
          s4 = (if func_to_ospeed enc f \<noteq> 0
                then rmw_step OSPEED 2 (p * 2) (func_to_ospeed enc f) s3 else s3)
      in rmw_step PUPDR 2 (p * 2) (func_to_pupd enc f) s4)"

text \<open>
  The same five steps with the four field values given: the table of the specification
  supplies them in the statement about the sequence.
\<close>

definition configure_sequence ::
  "nat \<Rightarrow> u32 \<Rightarrow> u32 \<Rightarrow> u32 \<Rightarrow> u32 \<Rightarrow> c_int \<Rightarrow> hw \<Rightarrow> hw" where
  "configure_sequence p mode otype ospeed pupd altf s =
     (let s1 = (if altf \<noteq> 0 then rmw_step (AFR (p div 8)) 4 ((p mod 8) * 4) altf s else s);
          s2 = rmw_step MODE 2 (p * 2) mode s1;
          s3 = (if otype \<noteq> 0 then rmw_step OTYPE 1 p otype s2 else s2);
          s4 = (if ospeed \<noteq> 0 then rmw_step OSPEED 2 (p * 2) ospeed s3 else s3)
      in rmw_step PUPDR 2 (p * 2) pupd s4)"

text \<open>The register bits that belong to pin \<open>p\<close>: its fields in the five registers.\<close>

definition pin_bits :: "nat \<Rightarrow> (reg \<times> nat) set" where
  "pin_bits p =
     {(MODE, 2 * p), (MODE, 2 * p + 1), (OTYPE, p), (OSPEED, 2 * p), (OSPEED, 2 * p + 1),
      (PUPDR, 2 * p), (PUPDR, 2 * p + 1),
      (AFR (p div 8), 4 * (p mod 8)), (AFR (p div 8), 4 * (p mod 8) + 1),
      (AFR (p div 8), 4 * (p mod 8) + 2), (AFR (p div 8), 4 * (p mod 8) + 3)}"

text \<open>The accesses a call made: what the trace of \<open>s'\<close> has after that of \<open>s\<close>.\<close>

definition accesses_since :: "hw \<Rightarrow> hw \<Rightarrow> access list" where
  "accesses_since s s' = drop (length (trace s)) (trace s')"

section \<open>The classifier table of the specification\<close>

text \<open>
  What each enumerator stands for: its role (bias only, plain output drive,
  alternate function, analog), whether it is open-drain, and its pull.
\<close>

datatype pin_role = Bias | Drive | Alternate | Analog
datatype pin_pull = No_pull | Pull_up | Pull_down

fun role_of :: "stm32f4x_pin_config \<Rightarrow> pin_role" where
  "role_of STM32F4X_PIN_CONFIG_BIAS_HIGH_IMPEDANCE = Bias"
| "role_of STM32F4X_PIN_CONFIG_BIAS_PULL_UP = Bias"
| "role_of STM32F4X_PIN_CONFIG_BIAS_PULL_DOWN = Bias"
| "role_of STM32F4X_PIN_CONFIG_ANALOG = Analog"
| "role_of STM32F4X_PIN_CONFIG_DRIVE_OPEN_DRAIN = Drive"
| "role_of STM32F4X_PIN_CONFIG_DRIVE_OPEN_UP = Drive"
| "role_of STM32F4X_PIN_CONFIG_DRIVE_OPEN_DOWN = Drive"
| "role_of STM32F4X_PIN_CONFIG_DRIVE_PUSH_PULL = Drive"
| "role_of STM32F4X_PIN_CONFIG_DRIVE_PUSH_UP = Drive"
| "role_of STM32F4X_PIN_CONFIG_DRIVE_PUSH_DOWN = Drive"
| "role_of STM32F4X_PIN_CONFIG_AF_PUSH_PULL = Alternate"
| "role_of STM32F4X_PIN_CONFIG_AF_PUSH_UP = Alternate"
| "role_of STM32F4X_PIN_CONFIG_AF_PUSH_DOWN = Alternate"
| "role_of STM32F4X_PIN_CONFIG_AF_OPEN_DRAIN = Alternate"
| "role_of STM32F4X_PIN_CONFIG_AF_OPEN_UP = Alternate"
| "role_of STM32F4X_PIN_CONFIG_AF_OPEN_DOWN = Alternate"

fun open_drain :: "stm32f4x_pin_config \<Rightarrow> bool" where
  "open_drain STM32F4X_PIN_CONFIG_DRIVE_OPEN_DRAIN = True"
| "open_drain STM32F4X_PIN_CONFIG_DRIVE_OPEN_UP = True"
| "open_drain STM32F4X_PIN_CONFIG_DRIVE_OPEN_DOWN = True"
| "open_drain STM32F4X_PIN_CONFIG_AF_OPEN_DRAIN = True"
| "open_drain STM32F4X_PIN_CONFIG_AF_OPEN_UP = True"
| "open_drain STM32F4X_PIN_CONFIG_AF_OPEN_DOWN = True"
| "open_drain _ = False"

fun pull_of :: "stm32f4x_pin_config \<Rightarrow> pin_pull" where
  "pull_of STM32F4X_PIN_CONFIG_BIAS_PULL_UP = Pull_up"
| "pull_of STM32F4X_PIN_CONFIG_DRIVE_OPEN_UP = Pull_up"
| "pull_of STM32F4X_PIN_CONFIG_DRIVE_PUSH_UP = Pull_up"
| "pull_of STM32F4X_PIN_CONFIG_AF_PUSH_UP = Pull_up"
| "pull_of STM32F4X_PIN_CONFIG_AF_OPEN_UP = Pull_up"
| "pull_of STM32F4X_PIN_CONFIG_BIAS_PULL_DOWN = Pull_down"
| "pull_of STM32F4X_PIN_CONFIG_DRIVE_OPEN_DOWN = Pull_down"
| "pull_of STM32F4X_PIN_CONFIG_DRIVE_PUSH_DOWN = Pull_down"
| "pull_of STM32F4X_PIN_CONFIG_AF_PUSH_DOWN = Pull_down"
| "pull_of STM32F4X_PIN_CONFIG_AF_OPEN_DOWN = Pull_down"
| "pull_of _ = No_pull"

definition mode_of :: "stm32f4x_pin_config \<Rightarrow> u32" where
  "mode_of v = (case role_of v of Bias \<Rightarrow> 0x0 | Drive \<Rightarrow> 0x1 | Alternate \<Rightarrow> 0x2 | Analog \<Rightarrow> 0x3)"

definition otype_of :: "stm32f4x_pin_config \<Rightarrow> u32" where
  "otype_of v = (if open_drain v then 0x1 else 0x0)"

definition ospeed_of :: "stm32f4x_pin_config \<Rightarrow> u32" where
  "ospeed_of v = (case role_of v of Bias \<Rightarrow> 0x0 | Drive \<Rightarrow> 0x2 | Alternate \<Rightarrow> 0x2 | Analog \<Rightarrow> 0x0)"

definition pupd_of :: "stm32f4x_pin_config \<Rightarrow> u32" where
  "pupd_of v = (case pull_of v of No_pull \<Rightarrow> 0x0 | Pull_up \<Rightarrow> 0x1 | Pull_down \<Rightarrow> 0x2)"

section \<open>The flags table of the specification\<close>

datatype flag_direction = Output | Not_output

definition flags_direction :: "gpio_h \<Rightarrow> c_int \<Rightarrow> flag_direction" where
  "flags_direction K flags =
     (if flags AND GPIO_DIR_MASK K = GPIO_DIR_OUT K then Output else Not_output)"

definition flags_pull :: "gpio_h \<Rightarrow> c_int \<Rightarrow> pin_pull" where
  "flags_pull K flags =
     (if flags AND GPIO_PUD_MASK K = GPIO_PUD_PULL_UP K then Pull_up
      else if flags AND GPIO_PUD_MASK K = GPIO_PUD_PULL_DOWN K then Pull_down
      else No_pull)"

fun conf_table :: "flag_direction \<Rightarrow> pin_pull \<Rightarrow> stm32f4x_pin_config" where
  "conf_table Output Pull_up = STM32F4X_PIN_CONFIG_DRIVE_PUSH_UP"
| "conf_table Output Pull_down = STM32F4X_PIN_CONFIG_DRIVE_PUSH_DOWN"
| "conf_table Output No_pull = STM32F4X_PIN_CONFIG_DRIVE_PUSH_PULL"
| "conf_table Not_output Pull_up = STM32F4X_PIN_CONFIG_BIAS_PULL_UP"
| "conf_table Not_output Pull_down = STM32F4X_PIN_CONFIG_BIAS_PULL_DOWN"
| "conf_table Not_output No_pull = STM32F4X_PIN_CONFIG_BIAS_HIGH_IMPEDANCE"

section \<open>Selector registers by index\<close>

text \<open>Selector register \<open>i\<close> (counted from 0) is \<open>exticr\<close>\<open>i+1\<close> of the SYSCFG block.\<close>

definition exticr_reg :: "nat \<Rightarrow> reg" where
  "exticr_reg i =
     (if i = 0 then EXTICR1 else if i = 1 then EXTICR2 else if i = 2 then EXTICR3 else EXTICR4)"

section \<open>Concrete states and projections\<close>

definition reset_regs :: "reg \<Rightarrow> u32" where
  "reset_regs r = 0"

definition reset_hw :: hw where
  "reset_hw = \<lparr>regs = reset_regs, trace = []\<rparr>"

definition reg_after :: "(c_int \<times> hw) option \<Rightarrow> reg \<Rightarrow> u32 option" where
  "reg_after res r = map_option (\<lambda>(_, s). regs s r) res"

definition trace_after :: "(c_int \<times> hw) option \<Rightarrow> access list option" where
  "trace_after res = map_option (\<lambda>(_, s). trace s) res"

text \<open>States and stores used to run the model on concrete inputs.\<close>

definition speed01_hw :: hw where
  "speed01_hw = reset_hw\<lparr>regs := reset_regs(OSPEED := 0x400)\<rparr>"

definition idr15_hw :: hw where
  "idr15_hw = reset_hw\<lparr>regs := reset_regs(IDR := 0x8000)\<rparr>"

definition exti_hw :: hw where
  "exti_hw = reset_hw\<lparr>regs := reset_regs(EXTICR2 := 0xABCD)\<rparr>"

definition zero_store :: int_store where
  "zero_store a = 0"

section \<open>Fields of a register\<close>

lemma field_rmw_idem: "field_rmw w off v (field_rmw w off v x) = field_rmw w off v x"
  unfolding field_rmw_def by (rule bit_eqI) (auto simp add: bit_simps)

lemma bit_small:
  fixes v :: u32
  assumes "v < 2 ^ w" "bit v k"
  shows "k < w"
proof -
  have "v AND mask w = v" using assms(1) by (rule less_mask_eq)
  then have "take_bit w v = v" by (simp add: take_bit_eq_mask)
  then have "bit (take_bit w v) k" using assms(2) by simp
  then show ?thesis by (simp add: bit_take_bit_iff)
qed

lemma field_rmw_bit:
  fixes v :: u32
  assumes "v < 2 ^ w"
  shows "bit (field_rmw w off v old) n =
           (if off \<le> n \<and> n < off + w then n < 32 \<and> bit v (n - off) else bit old n)"
  using bit_small[OF assms, of "n - off"]
  unfolding field_rmw_def by (auto simp add: bit_simps dest: bit_imp_le_length)

lemma field_rmw_get:
  fixes v :: u32
  assumes "v < 2 ^ w" "off + w \<le> 32"
  shows "take_bit w (drop_bit off (field_rmw w off v old)) = v"
  apply (rule bit_eqI)
  using assms bit_small[OF assms(1)]
  by (auto simp add: bit_simps field_rmw_bit)

lemma field_rmw_changed:
  fixes v :: u32
  assumes "v < 2 ^ w" "bit (field_rmw w off v old) n \<noteq> bit old n"
  shows "off \<le> n \<and> n < off + w"
  using assms(2) by (simp add: field_rmw_bit[OF assms(1)] split: if_splits)

section \<open>The register programmer runs the five steps\<close>

lemma func_to_mode_le: "func_to_mode enc f < 2 ^ 2"
  by (simp add: func_to_mode_def)

lemma func_to_otype_le: "func_to_otype enc f < 2 ^ 1"
  by (simp add: func_to_otype_def)

lemma func_to_ospeed_le: "func_to_ospeed enc f < 2 ^ 2"
  by (simp add: func_to_ospeed_def)

lemma func_to_pupd_le: "func_to_pupd enc f < 2 ^ 2"
  by (simp add: func_to_pupd_def)

lemma pin_cases:
  assumes "0 \<le>s (pin::c_int)" "pin \<le>s 15"
  shows "pin \<in> {0,1,2,3,4,5,6,7,8,9,10,11,12,13,14,15}"
proof -
  have "0 \<le> sint pin" "sint pin \<le> 15" using assms by (simp_all add: word_sle_eq)
  then have "sint pin \<in> {0,1,2,3,4,5,6,7,8,9,10,11,12,13,14,15}" by simp arith
  moreover have "pin = word_of_int (sint pin)" by simp
  ultimately show ?thesis
    by (metis (no_types, lifting) insert_iff of_int_0 of_int_1 of_int_numeral empty_iff)
qed

text \<open>For a pin in range no operation is undefined, and the call runs the five steps.\<close>

lemma configure_eq:
  assumes "0 \<le>s pin" "pin \<le>s 15"
  shows "stm32_gpio_configure enc s pin f altf
           = Some (0, configure_steps enc (unat pin) f altf s)"
proof -
  have "pin \<in> {0,1,2,3,4,5,6,7,8,9,10,11,12,13,14,15}" using assms by (rule pin_cases)
  then show ?thesis
    by (elim insertE emptyE;
        simp add: stm32_gpio_configure_def configure_steps_def rmw_step_def field_rmw_def
          rd_def wr_def c_mul_def c_shl_def afr_index_def Let_def word_sle_eq word_sless_alt
          mask_numeral)
qed

lemma regs_configure_steps:
  "regs (configure_steps enc p f altf s) =
     (regs s)
       (AFR (p div 8) :=
          (if altf \<noteq> 0 then field_rmw 4 ((p mod 8) * 4) altf (regs s (AFR (p div 8)))
           else regs s (AFR (p div 8))),
        MODE := field_rmw 2 (p * 2) (func_to_mode enc f) (regs s MODE),
        OTYPE :=
          (if func_to_otype enc f \<noteq> 0 then field_rmw 1 p (func_to_otype enc f) (regs s OTYPE)
           else regs s OTYPE),
        OSPEED :=
          (if func_to_ospeed enc f \<noteq> 0
           then field_rmw 2 (p * 2) (func_to_ospeed enc f) (regs s OSPEED)
           else regs s OSPEED),
        PUPDR := field_rmw 2 (p * 2) (func_to_pupd enc f) (regs s PUPDR))"
  by (auto simp add: configure_steps_def rmw_step_def Let_def fun_eq_iff)

lemma configure_steps_idem:
  "regs (configure_steps enc p f altf (configure_steps enc p f altf s))
     = regs (configure_steps enc p f altf s)"
  by (simp add: regs_configure_steps field_rmw_idem fun_eq_iff)

lemma configure_steps_frame:
  assumes "altf < 2 ^ 4"
    and "bit (regs (configure_steps enc p f altf s) r) n \<noteq> bit (regs s r) n"
  shows "(r, n) \<in> pin_bits p"
proof -
  let ?s' = "configure_steps enc p f altf s"
  have two: "off \<le> n \<and> n < off + 2 \<Longrightarrow> n = off \<or> n = off + 1" for off by arith
  have four: "off \<le> n \<and> n < off + 4 \<Longrightarrow> n = off \<or> n = off + 1 \<or> n = off + 2 \<or> n = off + 3"
    for off by arith
  consider (mode) "r = MODE" | (otype) "r = OTYPE" | (ospeed) "r = OSPEED" | (pupdr) "r = PUPDR"
    | (afr) "r = AFR (p div 8)" | (other) "r \<notin> {MODE, OTYPE, OSPEED, PUPDR, AFR (p div 8)}"
    by blast
  then show ?thesis
  proof cases
    case mode
    then have "bit (field_rmw 2 (p * 2) (func_to_mode enc f) (regs s MODE)) n
                 \<noteq> bit (regs s MODE) n"
      using assms(2) by (simp add: regs_configure_steps)
    from two[OF field_rmw_changed[OF func_to_mode_le this]] mode show ?thesis
      by (auto simp add: pin_bits_def)
  next
    case otype
    then have "bit (field_rmw 1 p (func_to_otype enc f) (regs s OTYPE)) n
                 \<noteq> bit (regs s OTYPE) n"
      using assms(2) by (simp add: regs_configure_steps split: if_splits)
    from field_rmw_changed[OF func_to_otype_le this] otype show ?thesis
      by (auto simp add: pin_bits_def)
  next
    case ospeed
    then have "bit (field_rmw 2 (p * 2) (func_to_ospeed enc f) (regs s OSPEED)) n
                 \<noteq> bit (regs s OSPEED) n"
      using assms(2) by (simp add: regs_configure_steps split: if_splits)
    from two[OF field_rmw_changed[OF func_to_ospeed_le this]] ospeed show ?thesis
      by (auto simp add: pin_bits_def)
  next
    case pupdr
    then have "bit (field_rmw 2 (p * 2) (func_to_pupd enc f) (regs s PUPDR)) n
                 \<noteq> bit (regs s PUPDR) n"
      using assms(2) by (simp add: regs_configure_steps)
    from two[OF field_rmw_changed[OF func_to_pupd_le this]] pupdr show ?thesis
      by (auto simp add: pin_bits_def)
  next
    case afr
    then have "bit (field_rmw 4 ((p mod 8) * 4) altf (regs s (AFR (p div 8)))) n
                 \<noteq> bit (regs s (AFR (p div 8))) n"
      using assms(2) by (simp add: regs_configure_steps split: if_splits)
    from four[OF field_rmw_changed[OF assms(1) this]] afr show ?thesis
      by (auto simp add: pin_bits_def mult.commute)
  next
    case other
    then have "regs ?s' r = regs s r" by (simp add: regs_configure_steps)
    with assms(2) show ?thesis by simp
  qed
qed

lemma accesses_since_configure_steps_afr:
  "Rd (AFR i) \<notin> set (accesses_since s (configure_steps enc p f 0 s))
   \<and> Wr (AFR i) v \<notin> set (accesses_since s (configure_steps enc p f 0 s))"
  by (simp add: configure_steps_def rmw_step_def Let_def accesses_since_def)

text \<open>
  C5, amended. For every pin 0-15, every function value and every alternate-function
  code in 0..15, \<open>stm32_gpio_configure\<close> changes no register bit outside the configured
  pin's own fields; and when the code is 0 the alternate-function words are neither
  read nor written. (The code is ORed in unmasked, so a code above 15 reaches the
  nibbles of the pins above.)
\<close>

theorem configure_frame:
  assumes "0 \<le>s pin" "pin \<le>s 15" "altf \<le> 15"
  shows "\<exists>s'. stm32_gpio_configure enc s pin f altf = Some (0, s')
           \<and> (\<forall>r n. bit (regs s' r) n \<noteq> bit (regs s r) n \<longrightarrow> (r, n) \<in> pin_bits (unat pin))
           \<and> (altf = 0 \<longrightarrow> (\<forall>i. regs s' (AFR i) = regs s (AFR i)
                              \<and> Rd (AFR i) \<notin> set (accesses_since s s')
                              \<and> (\<forall>v. Wr (AFR i) v \<notin> set (accesses_since s s'))))"
proof -
  let ?s' = "configure_steps enc (unat pin) f altf s"
  have lt: "altf < 2 ^ 4" using assms(3) by (simp add: word_le_nat_alt word_less_nat_alt)
  have "\<forall>r n. bit (regs ?s' r) n \<noteq> bit (regs s r) n \<longrightarrow> (r, n) \<in> pin_bits (unat pin)"
    using configure_steps_frame[OF lt] by blast
  moreover have "altf = 0 \<longrightarrow> (\<forall>i. regs ?s' (AFR i) = regs s (AFR i)
                              \<and> Rd (AFR i) \<notin> set (accesses_since s ?s')
                              \<and> (\<forall>v. Wr (AFR i) v \<notin> set (accesses_since s ?s')))"
    using accesses_since_configure_steps_afr[of _ s enc "unat pin" f]
    by (simp add: regs_configure_steps)
  ultimately show ?thesis
    using configure_eq[OF assms(1,2), of enc s f altf] by blast
qed

theorem configure_frame_witness:
  "(0::c_int) \<le>s 9 \<and> (9::c_int) \<le>s 15 \<and> (7::c_int) \<le> 15
   \<and> (\<exists>s'. stm32_gpio_configure sample_numbering reset_hw 9
              (sample_numbering STM32F4X_PIN_CONFIG_AF_OPEN_DRAIN) 7 = Some (0, s')
           \<and> (\<forall>r n. bit (regs s' r) n \<noteq> bit (regs reset_hw r) n \<longrightarrow> (r, n) \<in> pin_bits 9))"
proof -
  have h1: "(0::c_int) \<le>s 9" and h2: "(9::c_int) \<le>s 15" and h3: "(7::c_int) \<le> 15"
    by (simp_all add: word_sle_eq)
  show ?thesis
    using h1 h2 h3 configure_frame [OF h1 h2 h3, of sample_numbering reset_hw
        "sample_numbering STM32F4X_PIN_CONFIG_AF_OPEN_DRAIN"]
    by simp
qed

theorem configure_frame_counterexample:
  "reg_after (stm32_gpio_configure sample_numbering reset_hw 0
      (sample_numbering STM32F4X_PIN_CONFIG_AF_PUSH_PULL) 16) (AFR 0) = Some 16
   \<and> regs reset_hw (AFR 0) = 0
   \<and> bit (16 :: u32) 4 \<and> \<not> bit (0 :: u32) 4
   \<and> (AFR 0, 4) \<notin> pin_bits 0 \<and> (AFR 0, 4) \<in> pin_bits 1"
  by (simp add: reg_after_def stm32_gpio_configure_def rd_def wr_def c_mul_def c_shl_def
      afr_index_def Let_def word_sle_eq word_sless_alt reset_hw_def reset_regs_def pin_bits_def
      func_to_mode_def func_to_otype_def func_to_ospeed_def func_to_pupd_def)

text \<open>
  C9. \<open>stm32_gpio_configure\<close> is idempotent: for every register state, pin 0-15,
  function value and alternate-function code, a second call with the same arguments
  succeeds and leaves every register as the first call left it.
\<close>

theorem configure_idempotent:
  assumes "0 \<le>s pin" "pin \<le>s 15"
  shows "\<exists>s1 s2. stm32_gpio_configure enc s pin f altf = Some (0, s1)
           \<and> stm32_gpio_configure enc s1 pin f altf = Some (0, s2)
           \<and> regs s2 = regs s1"
  by (simp add: configure_eq[OF assms] configure_steps_idem)

theorem configure_idempotent_witness:
  "(0::c_int) \<le>s 9 \<and> (9::c_int) \<le>s 15
   \<and> (\<exists>s1 s2. stm32_gpio_configure sample_numbering reset_hw 9
                 (sample_numbering STM32F4X_PIN_CONFIG_AF_OPEN_DRAIN) 7 = Some (0, s1)
           \<and> stm32_gpio_configure sample_numbering s1 9
                 (sample_numbering STM32F4X_PIN_CONFIG_AF_OPEN_DRAIN) 7 = Some (0, s2)
           \<and> regs s2 = regs s1)"
proof -
  have h1: "(0::c_int) \<le>s 9" and h2: "(9::c_int) \<le>s 15" by (simp_all add: word_sle_eq)
  show ?thesis
    using h1 h2 configure_idempotent [OF h1 h2, of sample_numbering reset_hw
        "sample_numbering STM32F4X_PIN_CONFIG_AF_OPEN_DRAIN" 7]
    by simp
qed

section \<open>The classifiers agree with their table\<close>

lemma classifier_table:
  assumes "inj enc"
  shows "func_to_mode enc (enc v) = mode_of v" "func_to_otype enc (enc v) = otype_of v"
    "func_to_ospeed enc (enc v) = ospeed_of v" "func_to_pupd enc (enc v) = pupd_of v"
  by (cases v; simp add: func_to_mode_def func_to_otype_def func_to_ospeed_def func_to_pupd_def
        mode_of_def otype_of_def ospeed_of_def pupd_of_def inj_eq[OF assms])+

lemma classifier_fallback:
  assumes "f \<notin> range enc"
  shows "func_to_mode enc f = 0" "func_to_otype enc f = 0"
    "func_to_ospeed enc f = 0" "func_to_pupd enc f = 0"
proof -
  have "f \<noteq> enc v" for v using assms by blast
  then show "func_to_mode enc f = 0" "func_to_otype enc f = 0"
    "func_to_ospeed enc f = 0" "func_to_pupd enc f = 0"
    by (simp_all add: func_to_mode_def func_to_otype_def func_to_ospeed_def func_to_pupd_def)
qed

lemma inj_sample_numbering: "inj sample_numbering"
  by (rule injI) (case_tac x; case_tac y; simp)

lemma sample_numbering_le: "sample_numbering v \<le> 15"
  by (cases v) simp_all

text \<open>
  C3. The four classifiers are total and agree with the table of the specification on
  every enumerator (mode: bias 0x0, plain drive 0x1, alternate function 0x2, analog 0x3;
  output type: open-drain 0x1, others 0x0; speed: drive and alternate 0x2, bias and
  analog 0x0; pull: none and analog 0x0, pull-up 0x1, pull-down 0x2), and each returns 0
  on a value that is no enumerator. This holds for every injective numbering of the
  enumerators.
\<close>

theorem classifiers_match_table:
  assumes "inj enc"
  shows "func_to_mode enc (enc v) = mode_of v \<and> func_to_otype enc (enc v) = otype_of v
       \<and> func_to_ospeed enc (enc v) = ospeed_of v \<and> func_to_pupd enc (enc v) = pupd_of v
       \<and> (f \<notin> range enc \<longrightarrow> func_to_mode enc f = 0 \<and> func_to_otype enc f = 0
              \<and> func_to_ospeed enc f = 0 \<and> func_to_pupd enc f = 0)"
  using classifier_table[OF assms, of v] classifier_fallback[of f enc] by simp

theorem classifiers_match_table_witness:
  "inj sample_numbering
   \<and> func_to_mode sample_numbering (sample_numbering STM32F4X_PIN_CONFIG_AF_OPEN_UP) = 0x2
   \<and> func_to_otype sample_numbering (sample_numbering STM32F4X_PIN_CONFIG_AF_OPEN_UP) = 0x1
   \<and> func_to_ospeed sample_numbering (sample_numbering STM32F4X_PIN_CONFIG_AF_OPEN_UP) = 0x2
   \<and> func_to_pupd sample_numbering (sample_numbering STM32F4X_PIN_CONFIG_AF_OPEN_UP) = 0x1
   \<and> 16 \<notin> range sample_numbering
   \<and> func_to_mode sample_numbering 16 = 0 \<and> func_to_otype sample_numbering 16 = 0
   \<and> func_to_ospeed sample_numbering 16 = 0 \<and> func_to_pupd sample_numbering 16 = 0"
proof -
  have out: "16 \<notin> range sample_numbering"
  proof
    assume "16 \<in> range sample_numbering"
    then obtain v where "sample_numbering v = 16" by auto
    with sample_numbering_le[of v] show False by simp
  qed
  show ?thesis
    using inj_sample_numbering out
      classifiers_match_table [OF inj_sample_numbering, of STM32F4X_PIN_CONFIG_AF_OPEN_UP 16]
    by (simp add: mode_of_def otype_of_def ospeed_of_def pupd_of_def)
qed

section \<open>The flags translator agrees with its table\<close>

text \<open>
  C6. For every flags word, \<open>stm32_gpio_flags_to_conf\<close> with a non-null destination
  returns success and stores there exactly the pin function of the specification's
  table for the direction and pull read from the flags (output gives the push-pull
  drive variant with that pull, anything else the bias variant; a pull that is neither
  flag counts as none); with a null destination it returns the invalid-argument error
  and the store is unchanged.
\<close>

theorem flags_to_conf_table:
  "(pincfg \<noteq> NULL \<longrightarrow>
      stm32_gpio_flags_to_conf K enc mem flags pincfg
        = (0, mem(pincfg := enc (conf_table (flags_direction K flags) (flags_pull K flags)))))
   \<and> stm32_gpio_flags_to_conf K enc mem flags NULL = (- EINVAL, mem)
   \<and> role_of (conf_table d p) = (case d of Output \<Rightarrow> Drive | Not_output \<Rightarrow> Bias)
   \<and> pull_of (conf_table d p) = p \<and> \<not> open_drain (conf_table d p)"
  by (cases d; cases p; simp add: stm32_gpio_flags_to_conf_def flags_direction_def flags_pull_def Let_def)

theorem flags_to_conf_table_witness:
  "(1::addr) \<noteq> NULL
   \<and> stm32_gpio_flags_to_conf sample_gpio_h sample_numbering zero_store 0x101 1
        = (0, zero_store(1 := sample_numbering STM32F4X_PIN_CONFIG_DRIVE_PUSH_UP))"
proof -
  have h: "(1::addr) \<noteq> NULL" by (simp add: NULL_def)
  show ?thesis
    using h flags_to_conf_table [where pincfg = 1 and K = sample_gpio_h and enc = sample_numbering
        and mem = zero_store and flags = "0x101"]
    by (simp add: flags_direction_def flags_pull_def sample_gpio_h_def)
qed

section \<open>Setting and reading a pin\<close>

lemma unat_and_0f: "unat ((pin::c_int) AND 0xf) = unat pin mod 16"
proof -
  have m: "pin AND 0xf = take_bit 4 pin" by (simp add: take_bit_eq_mask mask_numeral)
  show ?thesis unfolding m by (simp add: unsigned_take_bit_eq take_bit_eq_mod unat_mod)
qed

lemma unat_and_0f_plus: "unat (((pin::c_int) AND 0xf) + 0x10) = unat pin mod 16 + 16"
proof -
  have "unat (pin AND 0xf) < 16" by (simp add: unat_and_0f)
  then show ?thesis using unat_and_0f[of pin] by (simp add: unat_word_ariths)
qed

lemma int_unat: "int (unat (x::c_int)) = uint x"
  by simp

lemma sint_small:
  fixes x :: c_int
  assumes "unat x \<le> 31"
  shows "0 \<le> sint x \<and> sint x < 32"
proof -
  have "int (unat x) \<le> 31" using assms by linarith
  then have c: "uint x \<le> 31" by (simp only: int_unat)
  then have b: "uint x < 2 ^ 31" by simp
  have "- (2 ^ 31) \<le> (0::int)" by simp
  also have "0 \<le> uint x" by simp
  finally have a: "- (2 ^ 31) \<le> uint x" .
  have "signed_take_bit 31 (uint x) = uint x"
    using a b by (rule signed_take_bit_int_eq_self)
  then have "sint x = uint x" by (simp add: sint_uint)
  then show ?thesis using c by simp
qed

lemma c_shl_small: "unat n \<le> 31 \<Longrightarrow> c_shl x n = Some (push_bit (unat n) x)"
  using sint_small[of n] by (simp add: c_shl_def word_sle_eq word_sless_alt)

lemma c_shr_small: "unat n \<le> 31 \<Longrightarrow> c_shr x n = Some (drop_bit (unat n) x)"
  using sint_small[of n] by (simp add: c_shr_def word_sle_eq word_sless_alt)

lemma set_shift_set: "c_shl 1 (pin AND 0xf) = Some (2 ^ (unat pin mod 16))"
proof -
  have "unat (pin AND 0xf) \<le> 31" by (simp add: unat_and_0f)
  from c_shl_small[OF this] show ?thesis
    by (simp add: unat_and_0f push_bit_eq_mult)
qed

lemma set_shift_reset: "c_shl 1 ((pin AND 0xf) + 0x10) = Some (2 ^ (unat pin mod 16 + 16))"
proof -
  have "unat ((pin AND 0xf) + 0x10) \<le> 31" by (simp add: unat_and_0f_plus)
  from c_shl_small[OF this] show ?thesis
    by (simp add: unat_and_0f_plus push_bit_eq_mult)
qed

lemma stm32_gpio_set_eq:
  "stm32_gpio_set s pin val =
     Some (0, s\<lparr>regs := (regs s)(BSR := 2 ^ (if val \<noteq> 0 then unat pin mod 16 else unat pin mod 16 + 16)),
                trace := trace s @ [Wr BSR (2 ^ (if val \<noteq> 0 then unat pin mod 16 else unat pin mod 16 + 16))]\<rparr>)"
  by (simp add: stm32_gpio_set_def set_shift_set set_shift_reset wr_def)

lemma unat_pin:
  assumes "0 \<le>s (pin::c_int)" "pin \<le>s 15"
  shows "unat pin \<le> 15"
  using pin_cases[OF assms] by auto

lemma stm32_gpio_get_eq:
  assumes "0 \<le>s (pin::c_int)" "pin \<le>s 15"
  shows "stm32_gpio_get s pin = Some (if bit (regs s IDR) (unat pin) then 1 else 0, s\<lparr>trace := trace s @ [Rd IDR]\<rparr>)"
proof -
  have "unat pin \<le> 31" using unat_pin[OF assms] by simp
  then have "c_shr (regs s IDR) pin = Some (drop_bit (unat pin) (regs s IDR))"
    by (rule c_shr_small)
  then show ?thesis
    by (simp add: stm32_gpio_get_def rd_def and_one_eq mod_2_eq_odd bit_iff_odd_drop_bit)
qed

text \<open>
  C7. For every pin 0-15, \<open>stm32_gpio_set\<close> makes exactly one access, a write to the
  set/reset register, of the word with only bit pin set when the value is non-zero and
  only bit pin+16 set when it is zero, and returns 0; \<open>stm32_gpio_get\<close> reads the
  input-data register once and returns its bit pin as 0 or 1.
\<close>

theorem pin_io_set_get:
  assumes "0 \<le>s pin" "pin \<le>s 15"
  shows "stm32_gpio_set s pin val =
           Some (0, s\<lparr>regs := (regs s)(BSR := 2 ^ (if val \<noteq> 0 then unat pin else unat pin + 16)),
                      trace := trace s @ [Wr BSR (2 ^ (if val \<noteq> 0 then unat pin else unat pin + 16))]\<rparr>)
       \<and> stm32_gpio_get s pin =
           Some (if bit (regs s IDR) (unat pin) then 1 else 0, s\<lparr>trace := trace s @ [Rd IDR]\<rparr>)"
proof -
  have "unat pin mod 16 = unat pin" using unat_pin[OF assms] by simp
  then show ?thesis using stm32_gpio_set_eq[of s pin val] stm32_gpio_get_eq[OF assms, of s] by simp
qed

theorem pin_io_set_get_witness:
  "(0::c_int) \<le>s 15 \<and> (15::c_int) \<le>s 15 \<and> (0::c_int) \<le>s 3 \<and> (3::c_int) \<le>s 15
   \<and> stm32_gpio_set idr15_hw 3 1
        = Some (0, idr15_hw\<lparr>regs := (regs idr15_hw)(BSR := 0x8), trace := [Wr BSR 0x8]\<rparr>)
   \<and> stm32_gpio_set idr15_hw 3 0
        = Some (0, idr15_hw\<lparr>regs := (regs idr15_hw)(BSR := 0x80000), trace := [Wr BSR 0x80000]\<rparr>)
   \<and> stm32_gpio_set idr15_hw 15 0
        = Some (0, idr15_hw\<lparr>regs := (regs idr15_hw)(BSR := 0x80000000),
                            trace := [Wr BSR 0x80000000]\<rparr>)
   \<and> stm32_gpio_get idr15_hw 15 = Some (1, idr15_hw\<lparr>trace := [Rd IDR]\<rparr>)
   \<and> stm32_gpio_get idr15_hw 3 = Some (0, idr15_hw\<lparr>trace := [Rd IDR]\<rparr>)"
proof -
  have h1: "(0::c_int) \<le>s 15" and h2: "(15::c_int) \<le>s 15"
    and h3: "(0::c_int) \<le>s 3" and h4: "(3::c_int) \<le>s 15"
    by (simp_all add: word_sle_eq)
  show ?thesis
    using h1 h2 h3 h4 pin_io_set_get [OF h1 h2, of idr15_hw 0]
      pin_io_set_get [OF h3 h4, of idr15_hw 1] pin_io_set_get [OF h3 h4, of idr15_hw 0]
    by (simp add: idr15_hw_def reset_hw_def reset_regs_def)
qed

text \<open>
  C10. \<open>stm32_gpio_set\<close> masks the pin to its low four bits before shifting: for every
  pin value the shift count is pin mod 16 (at most 15) to assert and pin mod 16 + 16 (at
  most 31) to deassert, no shift is undefined, and the call writes exactly that bit.
\<close>

theorem set_masks_pin:
  "stm32_gpio_set s pin val =
     Some (0, s\<lparr>regs := (regs s)(BSR := 2 ^ (if val \<noteq> 0 then unat pin mod 16 else unat pin mod 16 + 16)),
                trace := trace s @ [Wr BSR (2 ^ (if val \<noteq> 0 then unat pin mod 16 else unat pin mod 16 + 16))]\<rparr>)
   \<and> c_shl 1 (pin AND 0x0f) = Some (2 ^ (unat pin mod 16))
   \<and> c_shl 1 ((pin AND 0x0f) + 0x10) = Some (2 ^ (unat pin mod 16 + 16))
   \<and> unat (pin AND 0x0f) = unat pin mod 16 \<and> unat pin mod 16 + 16 \<le> 31
   \<and> int (unat pin mod 16) = sint pin mod 16"
proof -
  have "take_bit 4 (uint pin) = take_bit 4 (sint pin)" by (simp add: uint_sint)
  then have "uint pin mod 16 = sint pin mod 16" by (simp add: take_bit_eq_mod)
  moreover have "int (unat pin mod 16) = int (unat pin) mod 16" by (simp add: zmod_int)
  ultimately have "int (unat pin mod 16) = sint pin mod 16" by (simp only: int_unat)
  then show ?thesis
    using stm32_gpio_set_eq[of s pin val] set_shift_set[of pin] set_shift_reset[of pin] unat_and_0f[of pin]
    by simp
qed

theorem set_masks_pin_witness:
  "stm32_gpio_set reset_hw 19 1
     = Some (0, reset_hw\<lparr>regs := reset_regs(BSR := 0x8), trace := [Wr BSR 0x8]\<rparr>)"
  using set_masks_pin [of reset_hw 19 1]
  by (simp add: reset_hw_def)

section \<open>Routing an interrupt line\<close>

text \<open>
  C1, amended. For every port identifier and every pin index greater than 15,
  \<open>stm32_gpio_enable_int\<close> returns the invalid-argument error and no selector register is
  read or written; the SYSCFG clock enable has been invoked once by then, because the
  call precedes the pin check.
\<close>

theorem enable_int_rejects_pin_above_15:
  assumes "15 <s pin"
  shows "stm32_gpio_enable_int s port pin =
    Some (- EINVAL,
          s\<lparr>trace := trace s @ [Clock_control_on STM32_CLOCK_BUS_APB2 LL_APB2_GRP1_PERIPH_SYSCFG]\<rparr>)"
  using assms
  by (simp add: stm32_gpio_enable_int_def clock_control_on_def word_sle_eq word_sless_alt)

theorem enable_int_rejects_pin_above_15_witness:
  "(15::c_int) <s 20
   \<and> stm32_gpio_enable_int reset_hw 2 20 =
       Some (- EINVAL,
             reset_hw\<lparr>trace := [Clock_control_on STM32_CLOCK_BUS_APB2 LL_APB2_GRP1_PERIPH_SYSCFG]\<rparr>)"
proof -
  have h: "(15::c_int) <s 20" by (simp add: word_sless_alt)
  show ?thesis using h enable_int_rejects_pin_above_15 [OF h, of reset_hw 2]
    by (simp add: reset_hw_def)
qed

theorem enable_int_pin16_counterexample:
  "stm32_gpio_enable_int reset_hw 0 16 =
     Some (- EINVAL,
           reset_hw\<lparr>trace := [Clock_control_on STM32_CLOCK_BUS_APB2 LL_APB2_GRP1_PERIPH_SYSCFG]\<rparr>)
   \<and> trace_after (stm32_gpio_enable_int reset_hw 0 16) \<noteq> Some (trace reset_hw)"
  by (simp add: stm32_gpio_enable_int_def clock_control_on_def word_sle_eq reset_hw_def trace_after_def)

lemma enable_int_eq:
  assumes "0 \<le>s pin" "pin \<le>s 15"
  shows "stm32_gpio_enable_int s port pin =
     Some (0, s\<lparr>regs := (regs s)(exticr_reg (unat pin div 4) :=
                     field_rmw 4 (4 * (unat pin mod 4)) port (regs s (exticr_reg (unat pin div 4)))),
                trace := trace s @
                  [Clock_control_on STM32_CLOCK_BUS_APB2 LL_APB2_GRP1_PERIPH_SYSCFG,
                   Rd (exticr_reg (unat pin div 4)),
                   Wr (exticr_reg (unat pin div 4))
                      (regs s (exticr_reg (unat pin div 4)) AND NOT (push_bit (4 * (unat pin mod 4)) 0xf)),
                   Rd (exticr_reg (unat pin div 4)),
                   Wr (exticr_reg (unat pin div 4))
                      (field_rmw 4 (4 * (unat pin mod 4)) port (regs s (exticr_reg (unat pin div 4))))]\<rparr>)"
proof -
  have "pin \<in> {0,1,2,3,4,5,6,7,8,9,10,11,12,13,14,15}" using assms by (rule pin_cases)
  then show ?thesis
    by (elim insertE emptyE;
        simp add: stm32_gpio_enable_int_def clock_control_on_def exticr_reg_def field_rmw_def
          rd_def wr_def c_mul_def c_shl_def c_rem_def signed_modulo_int_def Let_def
          word_sle_eq word_sless_alt mask_numeral)
qed

text \<open>
  C8, amended. For every port identifier and every pin 0-15, \<open>stm32_gpio_enable_int\<close>
  enables the clock, selects selector register pin/4, clears the 4-bit field at shift
  (pin mod 4)*4 with one read-modify-write, ORs the shifted port identifier in with a
  second one, and returns success; when the port identifier is in 0..15 the field then
  holds it and the other three fields are unchanged. (The identifier is ORed in
  unmasked, so a larger one reaches the fields above.)
\<close>

theorem enable_int_routes:
  assumes "0 \<le>s pin" "pin \<le>s 15"
  shows "\<exists>s'. stm32_gpio_enable_int s port pin = Some (0, s')
     \<and> regs s' = (regs s)(exticr_reg (unat pin div 4) :=
                     field_rmw 4 (4 * (unat pin mod 4)) port (regs s (exticr_reg (unat pin div 4))))
     \<and> accesses_since s s' =
          [Clock_control_on STM32_CLOCK_BUS_APB2 LL_APB2_GRP1_PERIPH_SYSCFG,
           Rd (exticr_reg (unat pin div 4)),
           Wr (exticr_reg (unat pin div 4))
              (regs s (exticr_reg (unat pin div 4)) AND NOT (push_bit (4 * (unat pin mod 4)) 0xf)),
           Rd (exticr_reg (unat pin div 4)),
           Wr (exticr_reg (unat pin div 4)) (regs s' (exticr_reg (unat pin div 4)))]
     \<and> (port \<le> 15 \<longrightarrow>
          take_bit 4 (drop_bit (4 * (unat pin mod 4)) (regs s' (exticr_reg (unat pin div 4)))) = port
          \<and> (\<forall>n. \<not> (4 * (unat pin mod 4) \<le> n \<and> n < 4 * (unat pin mod 4) + 4) \<longrightarrow>
                 bit (regs s' (exticr_reg (unat pin div 4))) n
                   = bit (regs s (exticr_reg (unat pin div 4))) n))"
proof -
  let ?r = "exticr_reg (unat pin div 4)" and ?sh = "4 * (unat pin mod 4)"
  have fld: "take_bit 4 (drop_bit ?sh (field_rmw 4 ?sh port (regs s ?r))) = port
             \<and> (\<forall>n. \<not> (?sh \<le> n \<and> n < ?sh + 4) \<longrightarrow>
                    bit (field_rmw 4 ?sh port (regs s ?r)) n = bit (regs s ?r) n)"
    if "port \<le> 15"
  proof -
    have lt: "port < 2 ^ 4" using that by (simp add: word_le_nat_alt word_less_nat_alt)
    have "?sh + 4 \<le> 32" by simp
    from field_rmw_get[OF lt this] field_rmw_bit[OF lt] show ?thesis by simp
  qed
  show ?thesis
    using fld by (simp add: enable_int_eq[OF assms] accesses_since_def)
qed

theorem enable_int_routes_witness:
  "(0::c_int) \<le>s 7 \<and> (7::c_int) \<le>s 15 \<and> (3::c_int) \<le> 15
   \<and> regs exti_hw EXTICR2 = 0xABCD
   \<and> reg_after (stm32_gpio_enable_int exti_hw 3 7) EXTICR2 = Some 0x3BCD"
proof -
  have h1: "(0::c_int) \<le>s 7" and h2: "(7::c_int) \<le>s 15" by (simp_all add: word_sle_eq)
  from enable_int_routes [OF h1 h2, of exti_hw 3]
  obtain s' where "stm32_gpio_enable_int exti_hw 3 7 = Some (0, s')"
    and "regs s' = (regs exti_hw)(exticr_reg (unat (7::c_int) div 4) :=
            field_rmw 4 (4 * (unat (7::c_int) mod 4)) 3 (regs exti_hw (exticr_reg (unat (7::c_int) div 4))))"
    by blast
  then show ?thesis using h1 h2
    by (simp add: reg_after_def exticr_reg_def field_rmw_def exti_hw_def reset_hw_def reset_regs_def
        mask_numeral)
qed

theorem enable_int_port16_counterexample:
  "regs reset_hw EXTICR1 = 0
   \<and> reg_after (stm32_gpio_enable_int reset_hw 16 0) EXTICR1 = Some 0x10
   \<and> take_bit 4 (drop_bit 4 (0x10 :: u32)) = 1"
  by (simp add: reg_after_def stm32_gpio_enable_int_def clock_control_on_def
      rd_def wr_def c_mul_def c_shl_def c_rem_def signed_modulo_int_def Let_def
      word_sle_eq word_sless_alt reset_hw_def reset_regs_def)

section \<open>Configuring pin 5 as a push-pull output\<close>

text \<open>
  C2, amended. Configuring pin 5 with the drive-push-pull function and
  alternate-function code 0 sets mode bits [11:10] to 01, does not access the
  output-type register (bit 5 keeps its value), sets speed bits [11:10] to 10, whatever
  they were, and sets pull bits [11:10] to 00.
\<close>

theorem configure_pin5_push_pull:
  assumes "inj enc"
  shows "\<exists>s'. stm32_gpio_configure enc s 5 (enc STM32F4X_PIN_CONFIG_DRIVE_PUSH_PULL) 0 = Some (0, s')
     \<and> take_bit 2 (drop_bit 10 (regs s' MODE)) = 1
     \<and> regs s' OTYPE = regs s OTYPE
     \<and> Rd OTYPE \<notin> set (accesses_since s s') \<and> (\<forall>v. Wr OTYPE v \<notin> set (accesses_since s s'))
     \<and> take_bit 2 (drop_bit 10 (regs s' OSPEED)) = 2
     \<and> take_bit 2 (drop_bit 10 (regs s' PUPDR)) = 0"
proof -
  let ?f = "enc STM32F4X_PIN_CONFIG_DRIVE_PUSH_PULL"
  let ?s' = "configure_steps enc 5 ?f 0 s"
  have vals: "func_to_mode enc ?f = 1" "func_to_otype enc ?f = 0" "func_to_ospeed enc ?f = 2"
    "func_to_pupd enc ?f = 0"
    by (simp_all add: classifier_table[OF assms] mode_of_def otype_of_def ospeed_of_def pupd_of_def)
  have h1: "(0::c_int) \<le>s 5" and h2: "(5::c_int) \<le>s 15" by (simp_all add: word_sle_eq)
  have run: "stm32_gpio_configure enc s 5 ?f 0 = Some (0, ?s')"
    using configure_eq[OF h1 h2, of enc s ?f 0] by simp
  have m: "take_bit 2 (drop_bit 10 (regs ?s' MODE)) = 1"
    using field_rmw_get[of 1 2 10 "regs s MODE"] by (simp add: regs_configure_steps vals)
  have sp: "take_bit 2 (drop_bit 10 (regs ?s' OSPEED)) = 2"
    using field_rmw_get[of 2 2 10 "regs s OSPEED"] by (simp add: regs_configure_steps vals)
  have pu: "take_bit 2 (drop_bit 10 (regs ?s' PUPDR)) = 0"
    using field_rmw_get[of 0 2 10 "regs s PUPDR"] by (simp add: regs_configure_steps vals)
  have ot: "regs ?s' OTYPE = regs s OTYPE" by (simp add: regs_configure_steps vals)
  have tr: "Rd OTYPE \<notin> set (accesses_since s ?s') \<and> (\<forall>v. Wr OTYPE v \<notin> set (accesses_since s ?s'))"
    by (simp add: configure_steps_def rmw_step_def Let_def accesses_since_def vals)
  show ?thesis using run m sp pu ot tr by simp
qed

theorem configure_pin5_push_pull_witness:
  "inj sample_numbering
   \<and> (\<exists>s'. stm32_gpio_configure sample_numbering speed01_hw 5
              (sample_numbering STM32F4X_PIN_CONFIG_DRIVE_PUSH_PULL) 0 = Some (0, s')
          \<and> take_bit 2 (drop_bit 10 (regs s' MODE)) = 1
          \<and> regs s' OTYPE = regs speed01_hw OTYPE
          \<and> take_bit 2 (drop_bit 10 (regs s' OSPEED)) = 2
          \<and> take_bit 2 (drop_bit 10 (regs s' PUPDR)) = 0)"
  using inj_sample_numbering configure_pin5_push_pull [OF inj_sample_numbering, of speed01_hw]
  by blast

theorem configure_pin5_push_pull_counterexample:
  "take_bit 2 (drop_bit 10 (regs speed01_hw OSPEED)) = 1
   \<and> reg_after (stm32_gpio_configure sample_numbering speed01_hw 5
        (sample_numbering STM32F4X_PIN_CONFIG_DRIVE_PUSH_PULL) 0) OSPEED = Some 0x800
   \<and> take_bit 2 (drop_bit 10 (0x800 :: u32)) = 2
   \<and> regs reset_hw OSPEED = 0
   \<and> reg_after (stm32_gpio_configure sample_numbering reset_hw 5
        (sample_numbering STM32F4X_PIN_CONFIG_DRIVE_PUSH_PULL) 0) OSPEED = Some 0x800"
  by (simp add: reg_after_def stm32_gpio_configure_def rd_def wr_def c_mul_def c_shl_def
      afr_index_def Let_def word_sle_eq word_sless_alt speed01_hw_def reset_hw_def reset_regs_def
      func_to_mode_def func_to_otype_def func_to_ospeed_def func_to_pupd_def)

section \<open>The ordered sequence of the register programmer\<close>

lemma configure_steps_sequence:
  "configure_steps enc p f altf s =
     configure_sequence p (func_to_mode enc f) (func_to_otype enc f) (func_to_ospeed enc f)
       (func_to_pupd enc f) altf s"
  by (simp add: configure_steps_def configure_sequence_def)

lemma regs_configure_sequence:
  "regs (configure_sequence p m ot sp pu altf s) =
     (regs s)
       (AFR (p div 8) :=
          (if altf \<noteq> 0 then field_rmw 4 ((p mod 8) * 4) altf (regs s (AFR (p div 8)))
           else regs s (AFR (p div 8))),
        MODE := field_rmw 2 (p * 2) m (regs s MODE),
        OTYPE := (if ot \<noteq> 0 then field_rmw 1 p ot (regs s OTYPE) else regs s OTYPE),
        OSPEED := (if sp \<noteq> 0 then field_rmw 2 (p * 2) sp (regs s OSPEED) else regs s OSPEED),
        PUPDR := field_rmw 2 (p * 2) pu (regs s PUPDR))"
  by (auto simp add: configure_sequence_def rmw_step_def Let_def fun_eq_iff)

lemma accesses_configure_sequence:
  "accesses_since s (configure_sequence p m ot sp pu altf s) =
     (if altf \<noteq> 0
      then [Rd (AFR (p div 8)),
            Wr (AFR (p div 8)) (regs (configure_sequence p m ot sp pu altf s) (AFR (p div 8)))]
      else [])
     @ [Rd MODE, Wr MODE (regs (configure_sequence p m ot sp pu altf s) MODE)]
     @ (if ot \<noteq> 0
        then [Rd OTYPE, Wr OTYPE (regs (configure_sequence p m ot sp pu altf s) OTYPE)] else [])
     @ (if sp \<noteq> 0
        then [Rd OSPEED, Wr OSPEED (regs (configure_sequence p m ot sp pu altf s) OSPEED)] else [])
     @ [Rd PUPDR, Wr PUPDR (regs (configure_sequence p m ot sp pu altf s) PUPDR)]"
  unfolding regs_configure_sequence
  by (simp add: configure_sequence_def rmw_step_def Let_def accesses_since_def)

lemma table_values_small:
  "mode_of v < 2 ^ 2" "otype_of v < 2 ^ 1" "ospeed_of v < 2 ^ 2" "pupd_of v < 2 ^ 2"
  by (cases v; simp add: mode_of_def otype_of_def ospeed_of_def pupd_of_def)+

lemma sample_numbering_not_16: "16 \<notin> range sample_numbering"
proof
  assume "16 \<in> range sample_numbering"
  then obtain v where "sample_numbering v = 16" by auto
  with sample_numbering_le[of v] show False by simp
qed

text \<open>
  C4, amended. For every pin 0-15, every function value and every alternate-function
  code, \<open>stm32_gpio_configure\<close> returns success after exactly this ordered sequence of
  register accesses: when the code is non-zero, a read-modify-write of
  alternate-function word pin/8 that clears the nibble at offset (pin mod 8)*4 and ORs
  in the code shifted there, which leaves the nibble equal to the code when the code is
  in 0..15; a read-modify-write of the 2-bit mode field at pin*2 to the table's mode
  value; a read-modify-write of the output-type bit, and of the 2-bit speed field at
  pin*2, to the table's value only when that value is non-zero, the register being left
  alone otherwise; a read-modify-write of the 2-bit pull field at pin*2 to the table's
  pull value, always. A function value that is no enumerator has all four values 0.
\<close>

theorem configure_performs_sequence:
  assumes "inj enc" "0 \<le>s pin" "pin \<le>s 15"
  shows "\<exists>s'. stm32_gpio_configure enc s pin (enc v) altf = Some (0, s')
     \<and> s' = configure_sequence (unat pin) (mode_of v) (otype_of v) (ospeed_of v) (pupd_of v) altf s
     \<and> accesses_since s s' =
         (if altf \<noteq> 0
          then [Rd (AFR (unat pin div 8)),
                Wr (AFR (unat pin div 8)) (regs s' (AFR (unat pin div 8)))]
          else [])
         @ [Rd MODE, Wr MODE (regs s' MODE)]
         @ (if otype_of v \<noteq> 0 then [Rd OTYPE, Wr OTYPE (regs s' OTYPE)] else [])
         @ (if ospeed_of v \<noteq> 0 then [Rd OSPEED, Wr OSPEED (regs s' OSPEED)] else [])
         @ [Rd PUPDR, Wr PUPDR (regs s' PUPDR)]
     \<and> regs s' (AFR (unat pin div 8)) =
         (if altf \<noteq> 0
          then (regs s (AFR (unat pin div 8)) AND NOT (push_bit ((unat pin mod 8) * 4) 0xf))
                 OR push_bit ((unat pin mod 8) * 4) altf
          else regs s (AFR (unat pin div 8)))
     \<and> (altf \<noteq> 0 \<and> altf \<le> 15 \<longrightarrow>
          take_bit 4 (drop_bit ((unat pin mod 8) * 4) (regs s' (AFR (unat pin div 8)))) = altf)
     \<and> take_bit 2 (drop_bit (unat pin * 2) (regs s' MODE)) = mode_of v
     \<and> (if otype_of v \<noteq> 0 then take_bit 1 (drop_bit (unat pin) (regs s' OTYPE)) = otype_of v
         else regs s' OTYPE = regs s OTYPE)
     \<and> (if ospeed_of v \<noteq> 0
         then take_bit 2 (drop_bit (unat pin * 2) (regs s' OSPEED)) = ospeed_of v
         else regs s' OSPEED = regs s OSPEED)
     \<and> take_bit 2 (drop_bit (unat pin * 2) (regs s' PUPDR)) = pupd_of v
     \<and> (f \<notin> range enc \<longrightarrow>
          stm32_gpio_configure enc s pin f altf
            = Some (0, configure_sequence (unat pin) 0 0 0 0 altf s))"
proof -
  let ?p = "unat pin"
  let ?s' = "configure_sequence ?p (mode_of v) (otype_of v) (ospeed_of v) (pupd_of v) altf s"
  have p: "?p \<le> 15" using pin_cases[OF assms(2,3)] by auto
  have run: "stm32_gpio_configure enc s pin (enc v) altf = Some (0, ?s')"
    by (simp add: configure_eq[OF assms(2,3)] configure_steps_sequence classifier_table[OF assms(1)])
  have out: "stm32_gpio_configure enc s pin f altf
               = Some (0, configure_sequence ?p 0 0 0 0 altf s)" if "f \<notin> range enc"
    by (simp add: configure_eq[OF assms(2,3)] configure_steps_sequence classifier_fallback[OF that])
  have afr: "regs ?s' (AFR (?p div 8)) =
         (if altf \<noteq> 0
          then (regs s (AFR (?p div 8)) AND NOT (push_bit ((?p mod 8) * 4) 0xf))
                 OR push_bit ((?p mod 8) * 4) altf
          else regs s (AFR (?p div 8)))"
    by (simp add: regs_configure_sequence field_rmw_def mask_numeral)
  have nib: "take_bit 4 (drop_bit ((?p mod 8) * 4) (regs ?s' (AFR (?p div 8)))) = altf"
    if "altf \<noteq> 0 \<and> altf \<le> 15"
  proof -
    have lt: "altf < 2 ^ 4" using that by (simp add: word_le_nat_alt word_less_nat_alt)
    have "(?p mod 8) * 4 + 4 \<le> 32" by simp
    from field_rmw_get[OF lt this] that show ?thesis by (simp add: regs_configure_sequence)
  qed
  have b2: "?p * 2 + 2 \<le> 32" and b1: "?p + 1 \<le> 32" using p by simp_all
  have m: "take_bit 2 (drop_bit (?p * 2) (regs ?s' MODE)) = mode_of v"
    using field_rmw_get[OF table_values_small(1) b2] by (simp add: regs_configure_sequence)
  have pu: "take_bit 2 (drop_bit (?p * 2) (regs ?s' PUPDR)) = pupd_of v"
    using field_rmw_get[OF table_values_small(4) b2] by (simp add: regs_configure_sequence)
  have ot: "if otype_of v \<noteq> 0 then take_bit 1 (drop_bit ?p (regs ?s' OTYPE)) = otype_of v
            else regs ?s' OTYPE = regs s OTYPE"
    using field_rmw_get[OF table_values_small(2) b1, of v "regs s OTYPE"]
    by (simp add: regs_configure_sequence)
  have sp: "if ospeed_of v \<noteq> 0 then take_bit 2 (drop_bit (?p * 2) (regs ?s' OSPEED)) = ospeed_of v
            else regs ?s' OSPEED = regs s OSPEED"
    using field_rmw_get[OF table_values_small(3) b2, of v "regs s OSPEED"]
    by (simp add: regs_configure_sequence)
  show ?thesis
    using run out afr nib m pu ot sp
      accesses_configure_sequence[of s ?p "mode_of v" "otype_of v" "ospeed_of v" "pupd_of v" altf]
    by (intro exI[of _ ?s'] conjI impI) (assumption | simp)+
qed

theorem configure_performs_sequence_witness:
  "inj sample_numbering \<and> (0::c_int) \<le>s 9 \<and> (9::c_int) \<le>s 15
   \<and> (7::c_int) \<noteq> 0 \<and> (7::c_int) \<le> 15 \<and> 16 \<notin> range sample_numbering
   \<and> trace_after (stm32_gpio_configure sample_numbering reset_hw 9
        (sample_numbering STM32F4X_PIN_CONFIG_AF_OPEN_DRAIN) 7)
     = Some [Rd (AFR 1), Wr (AFR 1) 0x70, Rd MODE, Wr MODE 0x80000, Rd OTYPE, Wr OTYPE 0x200,
             Rd OSPEED, Wr OSPEED 0x80000, Rd PUPDR, Wr PUPDR 0]
   \<and> reg_after (stm32_gpio_configure sample_numbering reset_hw 9
        (sample_numbering STM32F4X_PIN_CONFIG_AF_OPEN_DRAIN) 7) (AFR 1) = Some 0x70
   \<and> trace_after (stm32_gpio_configure sample_numbering reset_hw 9 16 7)
     = Some [Rd (AFR 1), Wr (AFR 1) 0x70, Rd MODE, Wr MODE 0, Rd PUPDR, Wr PUPDR 0]"
proof -
  have h1: "(0::c_int) \<le>s 9" and h2: "(9::c_int) \<le>s 15" by (simp_all add: word_sle_eq)
  from configure_performs_sequence [OF inj_sample_numbering h1 h2, of reset_hw
      STM32F4X_PIN_CONFIG_AF_OPEN_DRAIN 7 16]
  obtain s' where r1: "stm32_gpio_configure sample_numbering reset_hw 9
        (sample_numbering STM32F4X_PIN_CONFIG_AF_OPEN_DRAIN) 7 = Some (0, s')"
    and r2: "s' = configure_sequence (unat (9::c_int)) (mode_of STM32F4X_PIN_CONFIG_AF_OPEN_DRAIN)
        (otype_of STM32F4X_PIN_CONFIG_AF_OPEN_DRAIN) (ospeed_of STM32F4X_PIN_CONFIG_AF_OPEN_DRAIN)
        (pupd_of STM32F4X_PIN_CONFIG_AF_OPEN_DRAIN) 7 reset_hw"
    and r3: "16 \<notin> range sample_numbering \<longrightarrow>
          stm32_gpio_configure sample_numbering reset_hw 9 16 7
            = Some (0, configure_sequence (unat (9::c_int)) 0 0 0 0 7 reset_hw)"
    by blast
  show ?thesis
    using inj_sample_numbering h1 h2 sample_numbering_not_16 r1 r2 r3
    by (simp add: trace_after_def reg_after_def configure_sequence_def rmw_step_def field_rmw_def reset_hw_def
        reset_regs_def Let_def mode_of_def otype_of_def ospeed_of_def pupd_of_def mask_numeral)
qed

theorem configure_nibble_counterexample:
  "reg_after (stm32_gpio_configure sample_numbering reset_hw 9
      (sample_numbering STM32F4X_PIN_CONFIG_AF_PUSH_PULL) 0x17) (AFR 1) = Some 0x170
   \<and> take_bit 4 (drop_bit 4 (0x170 :: u32)) = 7
   \<and> take_bit 4 (drop_bit 4 (0x170 :: u32)) \<noteq> 0x17
   \<and> take_bit 4 (drop_bit 8 (regs reset_hw (AFR 1))) = 0
   \<and> take_bit 4 (drop_bit 8 (0x170 :: u32)) = 1"
  by (simp add: reg_after_def stm32_gpio_configure_def rd_def wr_def c_mul_def c_shl_def
      afr_index_def Let_def word_sle_eq word_sless_alt reset_hw_def reset_regs_def
      func_to_mode_def func_to_otype_def func_to_ospeed_def func_to_pupd_def)

end
